theory Spec2Isabelle
  imports Main
begin

section \<open>Python strings\<close>

text \<open>
  A Python \<open>str\<close> is a sequence of Unicode code points; it is modelled as a list of
  natural numbers, so that \<open>len\<close> is \<open>length\<close>. String literals of the source are
  written \<open>str ''...''\<close>.
\<close>

type_synonym pystr = "nat list"

definition str :: "string \<Rightarrow> pystr" where
  "str = map of_char"

text \<open>
  \<open>isspace\<close> is the whitespace test behind both \<open>str.strip()\<close> and the regular
  expression class \<open>\s\<close> on \<open>str\<close> patterns: the ASCII controls 9--13 and 28--31, the
  space, U+0085, U+00A0, U+1680, U+2000--U+200A, U+2028, U+2029, U+202F, U+205F, U+3000.
\<close>

definition isspace :: "nat \<Rightarrow> bool" where
  "isspace c \<longleftrightarrow>
     (9 \<le> c \<and> c \<le> 13) \<or> (28 \<le> c \<and> c \<le> 32) \<or> c = 133 \<or> c = 160 \<or> c = 5760
     \<or> (8192 \<le> c \<and> c \<le> 8202) \<or> c = 8232 \<or> c = 8233 \<or> c = 8239 \<or> c = 8287
     \<or> c = 12288"

definition lstrip :: "pystr \<Rightarrow> pystr" where
  "lstrip s = dropWhile isspace s"

definition rstrip :: "pystr \<Rightarrow> pystr" where
  "rstrip s = rev (dropWhile isspace (rev s))"

definition strip :: "pystr \<Rightarrow> pystr" where
  "strip s = rstrip (lstrip s)"

definition startswith :: "pystr \<Rightarrow> pystr \<Rightarrow> bool" where
  "startswith s p \<longleftrightarrow> take (length p) s = p"

definition endswith :: "pystr \<Rightarrow> pystr \<Rightarrow> bool" where
  "endswith s p \<longleftrightarrow> length p \<le> length s \<and> drop (length s - length p) s = p"

fun py_join :: "pystr \<Rightarrow> pystr list \<Rightarrow> pystr" where
  "py_join sep [] = []"
| "py_join sep [x] = x"
| "py_join sep (x # y # ys) = x @ sep @ py_join sep (y # ys)"

text \<open>\<open>str_nat n\<close> is \<open>str(n)\<close> for a non-negative integer: its decimal digits.\<close>

fun str_nat :: "nat \<Rightarrow> pystr" where
  "str_nat n = (if n < 10 then [48 + n] else str_nat (n div 10) @ [48 + n mod 10])"

declare str_nat.simps [simp del]

section \<open>Exceptions\<close>

text \<open>
  A raised exception is the left summand of a result. \<open>Exception m\<close> stands for an
  instance of a class derived from \<open>Exception\<close> whose \<open>str()\<close> is \<open>m\<close>; these are the
  exceptions an \<open>except Exception\<close> clause catches.
\<close>

datatype exn = Exception pystr

fun exn_str :: "exn \<Rightarrow> pystr" where
  "exn_str (Exception m) = m"

section \<open>Chunks (auto_chunker.py)\<close>

record chunk =
  c_text :: pystr
  c_source :: pystr
  c_type :: pystr

text \<open>A notebook cell as \<open>nbformat\<close> returns it: its kind and its source text.\<close>

record cell =
  cell_type :: pystr
  cell_source :: pystr

text \<open>
  \<open>chunk_ipynb\<close>: \<open>nbformat.read\<close> is the parameter \<open>nb_read\<close> (it raises, or returns the
  cells); every cell becomes one chunk, with its source as it is.
\<close>

definition chunk_ipynb :: "(pystr \<Rightarrow> exn + cell list) \<Rightarrow> pystr \<Rightarrow> exn + chunk list" where
  "chunk_ipynb nb_read file_path =
     (case nb_read file_path of
        Inl e \<Rightarrow> Inl e
      | Inr cells \<Rightarrow>
          Inr (map (\<lambda>cell. \<lparr>c_text = cell_source cell, c_source = file_path,
                              c_type = cell_type cell\<rparr>) cells))"

section \<open>Inference (llm_utils.py)\<close>

text \<open>
  The request sent to the inference service: model name, the prompt as the single user
  message, and the token limit (the temperature is the constant 0.2). The service either
  raises or answers with the message contents of its choices, in order.
\<close>

record request =
  req_model :: pystr
  req_prompt :: pystr
  req_max_tokens :: nat

definition LMSTUDIO_MODEL_NAME :: pystr where
  "LMSTUDIO_MODEL_NAME = str ''qwen/qwen2.5-coder-14b''"

text \<open>The body of the \<open>try\<close>: the call, then \<open>response.choices[0].message.content\<close>.\<close>

definition lmstudio_body :: "(request \<Rightarrow> exn + pystr list) \<Rightarrow> pystr \<Rightarrow> nat \<Rightarrow> exn + pystr" where
  "lmstudio_body create prompt max_new_tokens =
     (case create \<lparr>req_model = LMSTUDIO_MODEL_NAME, req_prompt = prompt,
                    req_max_tokens = max_new_tokens\<rparr> of
        Inl e \<Rightarrow> Inl e
      | Inr choices \<Rightarrow>
          (case choices of
             [] \<Rightarrow> Inl (Exception (str ''list index out of range''))
           | content # _ \<Rightarrow> Inr content))"

definition lmstudio_inference :: "(request \<Rightarrow> exn + pystr list) \<Rightarrow> pystr \<Rightarrow> nat \<Rightarrow> exn + pystr" where
  "lmstudio_inference create prompt max_new_tokens =
     (case lmstudio_body create prompt max_new_tokens of
        Inr content \<Rightarrow> Inr content
      | Inl e \<Rightarrow> Inr (str ''Error parsing response: '' @ exn_str e))"

section \<open>Indexing (build_index.py)\<close>

text \<open>A Python dict with string keys and values, as an association list.\<close>

type_synonym pydict = "(pystr \<times> pystr) list"

text \<open>
  One record of the vector store, as \<open>collection.add\<close> receives it: id, embedding, document
  and metadata. The collection is the list of its records in insertion order, and
  \<open>collection.add\<close> appends the records formed from its four parallel lists.
\<close>

record 'v entry =
  e_id :: pystr
  e_embedding :: 'v
  e_document :: pystr
  e_metadata :: pydict

definition collection_add ::
  "'v entry list \<Rightarrow> pystr list \<Rightarrow> 'v list \<Rightarrow> pydict list \<Rightarrow> pystr list \<Rightarrow> 'v entry list" where
  "collection_add coll documents embeddings metadatas ids =
     coll @ map (\<lambda>(i, e, d, m). \<lparr>e_id = i, e_embedding = e, e_document = d, e_metadata = m\<rparr>)
                (zip ids (zip embeddings (zip documents metadatas)))"

text \<open>
  The batch loop \<open>for i in range(0, len(chunks), batch_size)\<close>, with \<open>i\<close> the loop variable
  and the collection threaded through. \<open>embedder.encode\<close> is deterministic per text: it is
  the map of a function \<open>emb\<close> over the batch's documents. The loop is entered only with
  a non-zero step; \<open>build_index\<close> below raises for step 0 as \<open>range\<close> does.
\<close>

function index_loop ::
  "(pystr \<Rightarrow> 'v) \<Rightarrow> nat \<Rightarrow> chunk list \<Rightarrow> nat \<Rightarrow> 'v entry list \<Rightarrow> 'v entry list" where
  "index_loop emb batch_size chunks i coll =
     (if batch_size = 0 \<or> length chunks \<le> i then coll
      else
        let batch = take batch_size (drop i chunks);
            docs = map c_text batch;
            metadatas = map (\<lambda>chunk. [(str ''source'', c_source chunk),
                                        (str ''type'', c_type chunk)]) batch;
            ids = map (\<lambda>j. str ''chunk_'' @ str_nat (i + j)) [0..<length batch];
            embeddings = map emb docs
        in index_loop emb batch_size chunks (i + batch_size)
             (collection_add coll docs embeddings metadatas ids))"
  by pat_completeness auto
termination
  by (relation "measure (\<lambda>(emb, batch_size, chunks, i, coll). length chunks - i)") auto

declare index_loop.simps [simp del]

definition build_index ::
  "(pystr \<Rightarrow> 'v) \<Rightarrow> nat \<Rightarrow> chunk list \<Rightarrow> 'v entry list \<Rightarrow> exn + 'v entry list" where
  "build_index emb batch_size chunks coll =
     (if batch_size = 0 then Inl (Exception (str ''range() arg 3 must not be zero''))
      else Inr (index_loop emb batch_size chunks 0 coll))"

text \<open>
  The record the chunk at global position \<open>g\<close> is expected to become: the reference the
  batch loop is compared with.
\<close>

definition entry_at :: "(pystr \<Rightarrow> 'v) \<Rightarrow> chunk list \<Rightarrow> nat \<Rightarrow> 'v entry" where
  "entry_at emb chunks g =
     \<lparr>e_id = str ''chunk_'' @ str_nat g, e_embedding = emb (c_text (chunks ! g)),
      e_document = c_text (chunks ! g),
      e_metadata = [(str ''source'', c_source (chunks ! g)), (str ''type'', c_type (chunks ! g))]\<rparr>"

section \<open>Retrieval and context assembly (rag_query.py, rag_utils.py)\<close>

text \<open>
  The values the two \<open>retrieve_context\<close> functions return: strings, lists and dicts.
\<close>

datatype pyval = PyStr pystr | PyList "pyval list" | PyDict pydict

text \<open>
  \<open>d[k]\<close> raises \<open>KeyError\<close> (whose text is the quoted key) for a missing key;
  \<open>d.get(k, dflt)\<close> returns the default.
\<close>

definition dict_getitem :: "pydict \<Rightarrow> pystr \<Rightarrow> exn + pystr" where
  "dict_getitem d k =
     (case map_of d k of
        None \<Rightarrow> Inl (Exception (str [CHR 0x27] @ k @ str [CHR 0x27]))
      | Some v \<Rightarrow> Inr v)"

definition dict_get :: "pydict \<Rightarrow> pystr \<Rightarrow> pystr \<Rightarrow> pystr" where
  "dict_get d k dflt = (case map_of d k of None \<Rightarrow> dflt | Some v \<Rightarrow> v)"

text \<open>
  The loop \<open>for i, (doc, meta) in enumerate(zip(docs, metadatas), 1)\<close> that builds
  \<open>context_chunks\<close>, with \<open>i\<close> the running index.
\<close>

fun context_chunks :: "nat \<Rightarrow> (pystr \<times> pydict) list \<Rightarrow> exn + pystr list" where
  "context_chunks i [] = Inr []"
| "context_chunks i ((doc, meta) # rest) =
     (case dict_getitem meta (str ''source'') of
        Inl e \<Rightarrow> Inl e
      | Inr src \<Rightarrow>
          let typ = dict_get meta (str ''type'') (str ''unknown'') in
          (case context_chunks (Suc i) rest of
             Inl e \<Rightarrow> Inl e
           | Inr blocks \<Rightarrow>
               Inr ((str ''['' @ str_nat i @ str ''] ('' @ typ @ str '') Source: '' @ src
                     @ str ''\<newline>'' @ doc @ str ''\<newline>'') # blocks)))"

text \<open>
  rag_query.py only: the comprehension
  \<open>[f"[{i}] {meta['source']}" for i, meta in enumerate(metadatas, 1)]\<close>.
\<close>

fun source_lines :: "nat \<Rightarrow> pydict list \<Rightarrow> exn + pystr list" where
  "source_lines i [] = Inr []"
| "source_lines i (meta # rest) =
     (case dict_getitem meta (str ''source'') of
        Inl e \<Rightarrow> Inl e
      | Inr src \<Rightarrow>
          (case source_lines (Suc i) rest of
             Inl e \<Rightarrow> Inl e
           | Inr lines \<Rightarrow> Inr ((str ''['' @ str_nat i @ str ''] '' @ src) # lines)))"

text \<open>
  \<open>retrieve_context\<close> of rag_query.py and of rag_utils.py. The embedding of the query and
  the nearest-neighbour search are the parameter \<open>query\<close>, which raises or returns
  \<open>results['documents'][0]\<close> and \<open>results['metadatas'][0]\<close>.
\<close>

definition rag_query_retrieve_context ::
  "(pystr \<Rightarrow> nat \<Rightarrow> exn + pystr list \<times> pydict list) \<Rightarrow> pystr \<Rightarrow> nat \<Rightarrow> exn + pyval \<times> pyval" where
  "rag_query_retrieve_context query q top_k =
     (case query q top_k of
        Inl e \<Rightarrow> Inl e
      | Inr (docs, metadatas) \<Rightarrow>
          (case context_chunks 1 (zip docs metadatas) of
             Inl e \<Rightarrow> Inl e
           | Inr chunks \<Rightarrow>
               (case source_lines 1 metadatas of
                  Inl e \<Rightarrow> Inl e
                | Inr sources \<Rightarrow>
                    Inr (PyStr (py_join (str ''\<newline>'') chunks),
                         PyStr (py_join (str ''\<newline>'') sources)))))"

definition rag_utils_retrieve_context ::
  "(pystr \<Rightarrow> nat \<Rightarrow> exn + pystr list \<times> pydict list) \<Rightarrow> pystr \<Rightarrow> nat \<Rightarrow> exn + pyval \<times> pyval" where
  "rag_utils_retrieve_context query q top_k =
     (case query q top_k of
        Inl e \<Rightarrow> Inl e
      | Inr (docs, metadatas) \<Rightarrow>
          (case context_chunks 1 (zip docs metadatas) of
             Inl e \<Rightarrow> Inl e
           | Inr chunks \<Rightarrow>
               Inr (PyStr (py_join (str ''\<newline>'') chunks), PyList (map PyDict metadatas))))"

text \<open>
  Reference renderings: the metadata dict the indexer stores for a (source, type) pair,
  the block \<open>[i] (type) Source: source\n<text>\n\<close> and the citation \<open>[i] source\<close>.
\<close>

definition metadata_of :: "pystr \<times> pystr \<Rightarrow> pydict" where
  "metadata_of st = [(str ''source'', fst st), (str ''type'', snd st)]"

definition context_block :: "nat \<Rightarrow> pystr \<Rightarrow> pystr \<times> pystr \<Rightarrow> pystr" where
  "context_block i doc st =
     str ''['' @ str_nat i @ str ''] ('' @ snd st @ str '') Source: '' @ fst st
       @ str ''\<newline>'' @ doc @ str ''\<newline>''"

definition citation :: "nat \<Rightarrow> pystr \<times> pystr \<Rightarrow> pystr" where
  "citation i st = str ''['' @ str_nat i @ str ''] '' @ fst st"

text \<open>A retrieval of two results, used as a worked example.\<close>

definition example_query :: "pystr \<Rightarrow> nat \<Rightarrow> exn + pystr list \<times> pydict list" where
  "example_query q top_k =
     Inr ([str ''def f(): pass'', str ''Title''],
          [metadata_of (str ''a.py'', str ''function''),
           metadata_of (str ''b.md'', str ''markdown'')])"

section \<open>Properties\<close>

subsection \<open>Trimming\<close>

lemma lstrip_rstrip_commute: "lstrip (rstrip s) = rstrip (lstrip s)"
proof (cases "\<forall>c \<in> set s. isspace c")
  case True
  have a: "dropWhile isspace s = []"
    using True by (simp only: dropWhile_eq_Nil_conv)
  have "\<forall>c \<in> set (rev s). isspace c"
    using True by (simp only: set_rev)
  then have b: "dropWhile isspace (rev s) = []"
    by (simp only: dropWhile_eq_Nil_conv)
  show ?thesis
    by (simp only: lstrip_def rstrip_def a b rev.simps dropWhile.simps)
next
  case False
  then have "\<exists>x \<in> set s. \<not> isspace x" by blast
  from split_list_first_prop [OF this]
  obtain a b c where s: "s = a @ b # c" and b: "\<not> isspace b"
    and a: "\<forall>x \<in> set a. \<not> \<not> isspace x"
    by blast
  from a have a': "\<forall>x \<in> set a. isspace x" by blast
  have d1: "dropWhile isspace (a @ b # c) = b # c"
    using a' b by (simp add: dropWhile_append2)
  have d2: "dropWhile isspace (rev c @ b # rev a) = dropWhile isspace (rev c) @ b # rev a"
    using b by (rule dropWhile_append3)
  have d3: "dropWhile isspace (rev c @ [b]) = dropWhile isspace (rev c) @ [b]"
    using b by (rule dropWhile_append3)
  have d4: "dropWhile isspace (a @ b # rev (dropWhile isspace (rev c)))
      = b # rev (dropWhile isspace (rev c))"
    using a' b by (simp add: dropWhile_append2)
  have r: "rstrip s = a @ b # rev (dropWhile isspace (rev c))"
    unfolding rstrip_def s by (simp add: d2)
  have l: "lstrip s = b # c"
    unfolding lstrip_def s by (rule d1)
  have "rstrip (b # c) = b # rev (dropWhile isspace (rev c))"
    unfolding rstrip_def by (simp add: d3)
  moreover have "lstrip (a @ b # rev (dropWhile isspace (rev c)))
      = b # rev (dropWhile isspace (rev c))"
    unfolding lstrip_def by (rule d4)
  ultimately show ?thesis by (simp only: r l)
qed

lemma lstrip_idem: "lstrip (lstrip s) = lstrip s"
  by (simp add: lstrip_def dropWhile_idem)

lemma rstrip_idem: "rstrip (rstrip s) = rstrip s"
  by (simp add: rstrip_def dropWhile_idem)

lemma strip_idem: "strip (strip s) = strip s"
  by (simp add: strip_def lstrip_rstrip_commute lstrip_idem rstrip_idem)

lemma strip_Nil [simp]: "strip [] = []"
  by (simp add: strip_def lstrip_def rstrip_def)

subsection \<open>Notebook cells are not trimmed\<close>

text \<open>
  C1. Every chunk of every supported format is claimed to have text that is non-empty
  after trimming. \<open>chunk_ipynb\<close> emits one chunk per cell without trimming or testing the
  cell's source: a notebook with one blank code cell yields a chunk whose trimmed text is
  empty.
\<close>

theorem chunk_ipynb_blank_cell:
  "chunk_ipynb (\<lambda>p. Inr [\<lparr>cell_type = str ''code'', cell_source = str '' ''\<rparr>]) (str ''nb.ipynb'')
     = Inr [\<lparr>c_text = str '' '', c_source = str ''nb.ipynb'', c_type = str ''code''\<rparr>]
   \<and> strip (str '' '') = []"
  by (simp add: chunk_ipynb_def str_def strip_def lstrip_def rstrip_def isspace_def)

subsection \<open>Inference errors are returned as text\<close>

text \<open>
  C9. Whatever the inference service does (it answers, or it raises), \<open>lmstudio_inference\<close>
  returns a string: the content of the first choice when the service answers with one, and
  the text \<open>Error parsing response: \<close> followed by the exception's message when the
  service raises.
\<close>

theorem lmstudio_inference_total:
  "(\<exists>s. lmstudio_inference create prompt n = Inr s)
   \<and> (\<forall>content rest.
        create \<lparr>req_model = LMSTUDIO_MODEL_NAME, req_prompt = prompt, req_max_tokens = n\<rparr>
          = Inr (content # rest)
        \<longrightarrow> lmstudio_inference create prompt n = Inr content)
   \<and> (\<forall>e.
        create \<lparr>req_model = LMSTUDIO_MODEL_NAME, req_prompt = prompt, req_max_tokens = n\<rparr> = Inl e
        \<longrightarrow> lmstudio_inference create prompt n
              = Inr (str ''Error parsing response: '' @ exn_str e))"
  by (auto simp: lmstudio_inference_def lmstudio_body_def split: sum.splits list.splits)

theorem lmstudio_inference_total_witness:
  "lmstudio_inference (\<lambda>r. Inl (Exception (str ''timeout''))) (str ''hi'') 512
     = Inr (str ''Error parsing response: timeout'')
   \<and> lmstudio_inference (\<lambda>r. Inr [str ''ok'']) (str ''hi'') 512 = Inr (str ''ok'')"
  using lmstudio_inference_total [of "\<lambda>r. Inl (Exception (str ''timeout''))" "str ''hi''" 512]
    lmstudio_inference_total [of "\<lambda>r. Inr [str ''ok'']" "str ''hi''" 512]
  by (simp add: str_def)

subsection \<open>Chunk ids and batching\<close>



lemma batch_entries:
  assumes "i < length chunks" "0 < bs"
  shows "map (\<lambda>(i, e, d, m). \<lparr>e_id = i, e_embedding = e, e_document = d, e_metadata = m\<rparr>)
           (zip (map (\<lambda>j. str ''chunk_'' @ str_nat (i + j)) [0..<length (take bs (drop i chunks))])
             (zip (map emb (map c_text (take bs (drop i chunks))))
               (zip (map c_text (take bs (drop i chunks)))
                 (map (\<lambda>chunk. [(str ''source'', c_source chunk), (str ''type'', c_type chunk)])
                   (take bs (drop i chunks))))))
         = map (entry_at emb chunks) [i..<min (length chunks) (i + bs)]"
  (is "?l = ?r")
proof (rule nth_equalityI)
  show len: "length ?l = length ?r" by auto
  fix k assume "k < length ?l"
  then have k: "k < bs" "i + k < length chunks" by auto
  then have "take bs (drop i chunks) ! k = chunks ! (i + k)" by simp
  with k show "?l ! k = ?r ! k"
    by (simp add: entry_at_def)
qed

lemma index_loop_eq:
  "0 < bs \<Longrightarrow> index_loop emb bs chunks i coll
     = coll @ map (entry_at emb chunks) [i..<length chunks]"
proof (induction emb bs chunks i coll rule: index_loop.induct)
  case (1 emb bs chunks i coll)
  show ?case
  proof (cases "length chunks \<le> i")
    case True
    then show ?thesis by (simp add: index_loop.simps [of emb bs chunks i coll])
  next
    case False
    then have i: "i < length chunks" by simp
    have split: "[i..<length chunks] = [i..<min (length chunks) (i + bs)] @ [min (length chunks) (i + bs)..<length chunks]"
    proof -
      have "i \<le> min (length chunks) (i + bs)" using i by simp
      from upt_add_eq_append [OF this, of "length chunks - min (length chunks) (i + bs)"]
      show ?thesis by simp
    qed
    have rest: "[i + bs..<length chunks] = [min (length chunks) (i + bs)..<length chunks]"
      by (cases "i + bs \<le> length chunks") (simp_all add: min_def)
    from "1.IH" [OF _ refl refl refl refl refl "1.prems"] False "1.prems"
    have "index_loop emb bs chunks i coll
        = collection_add coll (map c_text (take bs (drop i chunks)))
            (map emb (map c_text (take bs (drop i chunks))))
            (map (\<lambda>chunk. [(str ''source'', c_source chunk), (str ''type'', c_type chunk)]) (take bs (drop i chunks)))
            (map (\<lambda>j. str ''chunk_'' @ str_nat (i + j)) [0..<length (take bs (drop i chunks))])
          @ map (entry_at emb chunks) [i + bs..<length chunks]"
      by (simp add: index_loop.simps [of emb bs chunks i coll] Let_def)
    also have "\<dots> = coll @ map (entry_at emb chunks) [i..<min (length chunks) (i + bs)]
          @ map (entry_at emb chunks) [i + bs..<length chunks]"
      unfolding collection_add_def batch_entries [OF i "1.prems"] by simp
    also have "\<dots> = coll @ map (entry_at emb chunks) [i..<length chunks]"
    proof -
      have "map (entry_at emb chunks) [i..<length chunks]
          = map (entry_at emb chunks) [i..<min (length chunks) (i + bs)]
            @ map (entry_at emb chunks) [min (length chunks) (i + bs)..<length chunks]"
        by (subst split) (rule map_append)
      then show ?thesis by (simp only: rest)
    qed
    finally show ?thesis .
  qed
qed

lemma build_index_eq:
  "0 < bs \<Longrightarrow> build_index emb bs chunks coll
     = Inr (coll @ map (entry_at emb chunks) [0..<length chunks])"
  by (simp add: build_index_def index_loop_eq)




text \<open>
  C4. For a fixed chunk sequence, embedding function and starting collection, any two batch
  sizes of at least 1 leave the collection in the same state: the same records (id,
  embedding, document, metadata) in the same order. Batch boundaries have no effect.
\<close>

theorem batch_size_irrelevant:
  assumes "0 < b1" and "0 < b2"
  shows "build_index emb b1 chunks coll = build_index emb b2 chunks coll"
  by (simp only: build_index_eq [OF assms(1)] build_index_eq [OF assms(2)])

theorem batch_size_irrelevant_witness:
  "(0::nat) < 1 \<and> (0::nat) < 128 \<and>
   build_index length 1
     [\<lparr>c_text = str ''a'', c_source = str ''f.py'', c_type = str ''function''\<rparr>,
      \<lparr>c_text = str ''b'', c_source = str ''g.md'', c_type = str ''markdown''\<rparr>] []
   = build_index length 128
     [\<lparr>c_text = str ''a'', c_source = str ''f.py'', c_type = str ''function''\<rparr>,
      \<lparr>c_text = str ''b'', c_source = str ''g.md'', c_type = str ''markdown''\<rparr>] []"
  using batch_size_irrelevant [of 1 128 length
      "[\<lparr>c_text = str ''a'', c_source = str ''f.py'', c_type = str ''function''\<rparr>,
        \<lparr>c_text = str ''b'', c_source = str ''g.md'', c_type = str ''markdown''\<rparr>]" "[]"]
  by simp

subsection \<open>Context assembly\<close>

lemma metadata_source: "dict_getitem (metadata_of st) (str ''source'') = Inr (fst st)"
  by (simp add: dict_getitem_def metadata_of_def)

lemma metadata_type: "dict_get (metadata_of st) (str ''type'') d = snd st"
  by (simp add: dict_get_def metadata_of_def str_def)

lemma context_chunks_eq:
  "length docs = length sts \<Longrightarrow>
   context_chunks i (zip docs (map metadata_of sts))
     = Inr (map (\<lambda>(j, doc, st). context_block j doc st)
              (zip [i..<i + length docs] (zip docs sts)))"
proof (induction docs arbitrary: sts i)
  case Nil
  then show ?case by simp
next
  case (Cons d docs)
  then obtain st sts' where sts: "sts = st # sts'" and len: "length docs = length sts'"
    by (cases sts) auto
  have r: "[i..<i + length (d # docs)] = i # [Suc i..<Suc i + length docs]"
    by (simp add: upt_rec)
  show ?case
    unfolding sts r
    by (simp add: Cons.IH [OF len] metadata_source metadata_type context_block_def)
qed

lemma source_lines_eq:
  "source_lines i (map metadata_of sts)
     = Inr (map (\<lambda>(j, st). citation j st) (zip [i..<i + length sts] sts))"
proof (induction sts arbitrary: i)
  case Nil
  then show ?case by simp
next
  case (Cons st sts)
  have r: "[i..<i + length (st # sts)] = i # [Suc i..<Suc i + length sts]"
    by (simp add: upt_rec)
  show ?case
    unfolding r by (simp add: Cons.IH metadata_source citation_def)
qed

text \<open>
  C5 as stated fails: \<open>retrieve_context\<close> of rag_query.py joins the citation strings with
  newlines and returns one string, not a list of strings (and the one of rag_utils.py
  returns the metadata list in their place). On the two-result example the second value is
  the string \<open>[1] a.py\n[2] b.md\<close>.
\<close>

theorem citations_are_joined:
  "rag_query_retrieve_context example_query (str ''q'') 2
     = Inr (PyStr (str ''[1] (function) Source: a.py\<newline>def f(): pass\<newline>\<newline>[2] (markdown) Source: b.md\<newline>Title\<newline>''),
            PyStr (str ''[1] a.py\<newline>[2] b.md''))
   \<and> rag_query_retrieve_context example_query (str ''q'') 2
     \<noteq> Inr (PyStr (str ''[1] (function) Source: a.py\<newline>def f(): pass\<newline>\<newline>[2] (markdown) Source: b.md\<newline>Title\<newline>''),
            PyList [PyStr (str ''[1] a.py''), PyStr (str ''[2] b.md'')])"
  by (simp add: rag_query_retrieve_context_def example_query_def metadata_of_def
      dict_getitem_def dict_get_def str_def str_nat.simps)

text \<open>
  C5, amended. For a retrieval that returns documents and, in the same number and order,
  the metadata dicts of (source, type) pairs, both \<open>retrieve_context\<close> functions render
  pair \<open>i\<close> (counted from 1, in retrieval order) as the block
  \<open>[i] (type) Source: source\n<text>\n\<close> and join the blocks with a newline, which leaves
  a blank line between blocks. As its second value rag_query.py returns the citations
  \<open>[i] source\<close>, in the same order, joined with newlines into one string; rag_utils.py
  returns the list of metadata dicts.
\<close>

theorem assemble_context:
  assumes "query q k = Inr (docs, map metadata_of sts)" and "length docs = length sts"
  shows "rag_query_retrieve_context query q k
     = Inr (PyStr (py_join (str ''\<newline>'')
                     (map (\<lambda>(j, doc, st). context_block j doc st)
                        (zip [1..<1 + length docs] (zip docs sts)))),
            PyStr (py_join (str ''\<newline>'')
                     (map (\<lambda>(j, st). citation j st) (zip [1..<1 + length sts] sts))))
   \<and> rag_utils_retrieve_context query q k
     = Inr (PyStr (py_join (str ''\<newline>'')
                     (map (\<lambda>(j, doc, st). context_block j doc st)
                        (zip [1..<1 + length docs] (zip docs sts)))),
            PyList (map PyDict (map metadata_of sts)))"
  using assms
  by (simp add: rag_query_retrieve_context_def rag_utils_retrieve_context_def
      context_chunks_eq source_lines_eq)

theorem assemble_context_witness:
  "example_query (str ''q'') 2
     = Inr ([str ''def f(): pass'', str ''Title''],
            map metadata_of [(str ''a.py'', str ''function''), (str ''b.md'', str ''markdown'')])
   \<and> length [str ''def f(): pass'', str ''Title'']
     = length [(str ''a.py'', str ''function''), (str ''b.md'', str ''markdown'')]
   \<and> rag_query_retrieve_context example_query (str ''q'') 2
     = Inr (PyStr (py_join (str ''\<newline>'')
                     (map (\<lambda>(j, doc, st). context_block j doc st)
                        (zip [1..<1 + length [str ''def f(): pass'', str ''Title'']]
                           (zip [str ''def f(): pass'', str ''Title'']
                              [(str ''a.py'', str ''function''), (str ''b.md'', str ''markdown'')])))),
            PyStr (py_join (str ''\<newline>'')
                     (map (\<lambda>(j, st). citation j st)
                        (zip [1..<1 + length [(str ''a.py'', str ''function''), (str ''b.md'', str ''markdown'')]]
                           [(str ''a.py'', str ''function''), (str ''b.md'', str ''markdown'')]))))"
proof (intro conjI)
  show h1: "example_query (str ''q'') 2
     = Inr ([str ''def f(): pass'', str ''Title''],
            map metadata_of [(str ''a.py'', str ''function''), (str ''b.md'', str ''markdown'')])"
    by (simp add: example_query_def)
  show h2: "length [str ''def f(): pass'', str ''Title'']
     = length [(str ''a.py'', str ''function''), (str ''b.md'', str ''markdown'')]"
    by simp
  from assemble_context [of example_query "str ''q''" 2 "[str ''def f(): pass'', str ''Title'']"
      "[(str ''a.py'', str ''function''), (str ''b.md'', str ''markdown'')]", OF h1 h2]
  show "rag_query_retrieve_context example_query (str ''q'') 2
     = Inr (PyStr (py_join (str ''\<newline>'')
                     (map (\<lambda>(j, doc, st). context_block j doc st)
                        (zip [1..<1 + length [str ''def f(): pass'', str ''Title'']]
                           (zip [str ''def f(): pass'', str ''Title'']
                              [(str ''a.py'', str ''function''), (str ''b.md'', str ''markdown'')])))),
            PyStr (py_join (str ''\<newline>'')
                     (map (\<lambda>(j, st). citation j st)
                        (zip [1..<1 + length [(str ''a.py'', str ''function''), (str ''b.md'', str ''markdown'')]]
                           [(str ''a.py'', str ''function''), (str ''b.md'', str ''markdown'')]))))"
    by (rule conjunct1)
qed

end
